theory Spec2Isabelle
  imports Main "HOL-Library.Word" "HOL-Library.Multiset"
begin

section \<open>Strings of the JavaScript runtime\<close>

text \<open>
  A JavaScript string is a sequence of 16-bit UTF-16 code units. The regular expressions
  of the source carry no \<open>u\<close> flag, so they too work on code units. \<open>js\<close> writes a
  literal of the source as such a sequence.
\<close>

type_synonym code_unit = "16 word"
type_synonym jsstring = "code_unit list"

definition js :: "string \<Rightarrow> jsstring" where
  "js s = map of_char s"

definition hyphen :: code_unit where
  "hyphen = 0x2D"

definition space :: code_unit where
  "space = 0x20"

definition is_lower_letter :: "code_unit \<Rightarrow> bool" where
  "is_lower_letter c = (0x61 \<le> c \<and> c \<le> 0x7A)"

definition is_digit :: "code_unit \<Rightarrow> bool" where
  "is_digit c = (0x30 \<le> c \<and> c \<le> 0x39)"

text \<open>
  The class \<open>\s\<close> of a regular expression and the characters \<open>trim()\<close> strips are
  the same set: ECMAScript's WhiteSpace (TAB, VT, FF, SP, NBSP, ZWNBSP and the space
  separators of Unicode) and LineTerminator (LF, CR, LS, PS).
\<close>

definition is_whitespace :: "code_unit \<Rightarrow> bool" where
  "is_whitespace c =
     (c = 0x09 \<or> c = 0x0A \<or> c = 0x0B \<or> c = 0x0C \<or> c = 0x0D \<or> c = 0x20 \<or>
      c = 0xA0 \<or> c = 0x1680 \<or> (0x2000 \<le> c \<and> c \<le> 0x200A) \<or>
      c = 0x2028 \<or> c = 0x2029 \<or> c = 0x202F \<or> c = 0x205F \<or> c = 0x3000 \<or>
      c = 0xFEFF)"

text \<open>\<open>s.trim()\<close>: whitespace stripped from both ends.\<close>

definition js_trim :: "jsstring \<Rightarrow> jsstring" where
  "js_trim s = rev (dropWhile is_whitespace (rev (dropWhile is_whitespace s)))"

text \<open>
  \<open>s.replace(/C+/g, r)\<close> for a character class \<open>C\<close>: scanning from the left, every
  maximal run of characters of the class is replaced by \<open>r\<close>.
\<close>

function replace_runs :: "('a \<Rightarrow> bool) \<Rightarrow> 'a list \<Rightarrow> 'a list \<Rightarrow> 'a list" where
  "replace_runs p r [] = []"
| "replace_runs p r (x # xs) =
     (if p x then r @ replace_runs p r (dropWhile p xs) else x # replace_runs p r xs)"
  by pat_completeness auto
termination
  by (relation "measure (\<lambda>(p, r, xs). length xs)")
     (auto simp: length_dropWhile_le less_Suc_eq_le)

text \<open>
  \<open>s.toLowerCase()\<close>. On a string of ASCII code units the letters A to Z move up by
  32 and nothing else changes. On every other string the result is the Unicode case
  conversion of the runtime (U+0130 becomes \<open>i\<close> followed by U+0307, U+212A becomes
  \<open>k\<close>, a capital sigma depends on what stands around it): it is not written out
  here but taken as a parameter, the function \<open>beyond\<close>.
\<close>

type_synonym case_conversion = "jsstring \<Rightarrow> jsstring"

definition is_ascii :: "code_unit \<Rightarrow> bool" where
  "is_ascii c = (c \<le> 0x7F)"

definition lower_ascii :: "code_unit \<Rightarrow> code_unit" where
  "lower_ascii c = (if 0x41 \<le> c \<and> c \<le> 0x5A then c + 0x20 else c)"

definition toLowerCase :: "case_conversion \<Rightarrow> jsstring \<Rightarrow> jsstring" where
  "toLowerCase beyond s = (if list_all is_ascii s then map lower_ascii s else beyond s)"

section \<open>Slug derivation\<close>

text \<open>
  \<^verbatim>\<open>
  const generateSlug = (title: string): string => {
    return title
      .toLowerCase()
      .replace(/[^a-z0-9 -]/g, "")
      .replace(/\s+/g, "-")
      .replace(/-+/g, "-")
      .trim();
  };
  \<close>
  The create view and the edit view carry the same function. \<open>generateSlug_with\<close>
  is the pipeline after the case conversion, for any case conversion.
\<close>

definition is_kept :: "code_unit \<Rightarrow> bool" where
  "is_kept c = (is_lower_letter c \<or> is_digit c \<or> c = space \<or> c = hyphen)"

definition remove_special :: "jsstring \<Rightarrow> jsstring" where
  "remove_special s = filter is_kept s"

definition spaces_to_hyphens :: "jsstring \<Rightarrow> jsstring" where
  "spaces_to_hyphens s = replace_runs is_whitespace [hyphen] s"

definition collapse_hyphens :: "jsstring \<Rightarrow> jsstring" where
  "collapse_hyphens s = replace_runs (\<lambda>c. c = hyphen) [hyphen] s"

definition generateSlug_with :: "(jsstring \<Rightarrow> jsstring) \<Rightarrow> jsstring \<Rightarrow> jsstring" where
  "generateSlug_with lower title =
     js_trim (collapse_hyphens (spaces_to_hyphens (remove_special (lower title))))"

definition generateSlug :: "case_conversion \<Rightarrow> jsstring \<Rightarrow> jsstring" where
  "generateSlug beyond title = generateSlug_with (toLowerCase beyond) title"

text \<open>The shape the slug is meant to have.\<close>

definition is_slug_char :: "code_unit \<Rightarrow> bool" where
  "is_slug_char c = (is_lower_letter c \<or> is_digit c \<or> c = hyphen)"

fun no_double_hyphen :: "jsstring \<Rightarrow> bool" where
  "no_double_hyphen (a # b # s) = ((a \<noteq> hyphen \<or> b \<noteq> hyphen) \<and> no_double_hyphen (b # s))"
| "no_double_hyphen s = True"

definition starts_with_hyphen :: "jsstring \<Rightarrow> bool" where
  "starts_with_hyphen s = (case s of [] \<Rightarrow> False | c # _ \<Rightarrow> c = hyphen)"

definition ends_with_hyphen :: "jsstring \<Rightarrow> bool" where
  "ends_with_hyphen s = starts_with_hyphen (rev s)"

definition slug_shaped :: "jsstring \<Rightarrow> bool" where
  "slug_shaped s =
     (list_all is_slug_char s \<and> no_double_hyphen s \<and>
      \<not> starts_with_hyphen s \<and> \<not> ends_with_hyphen s)"

definition starts_with_separator :: "jsstring \<Rightarrow> bool" where
  "starts_with_separator s = (case s of [] \<Rightarrow> False | c # _ \<Rightarrow> c = hyphen \<or> c = space)"

definition ends_with_separator :: "jsstring \<Rightarrow> bool" where
  "ends_with_separator s = starts_with_separator (rev s)"

section \<open>Values of the runtime the views use\<close>

text \<open>
  A value of type \<open>string | null\<close> (or an optional field) is a \<open>jsstring option\<close>.
  In a condition the empty string counts as false, like \<open>null\<close> and \<open>undefined\<close>.
\<close>

definition truthy :: "jsstring option \<Rightarrow> bool" where
  "truthy v = (case v of None \<Rightarrow> False | Some s \<Rightarrow> s \<noteq> [])"

text \<open>\<open>v || null\<close>\<close>

definition or_null :: "jsstring option \<Rightarrow> jsstring option" where
  "or_null v = (if truthy v then v else None)"

text \<open>\<open>!s.trim()\<close>\<close>

definition blank :: "jsstring \<Rightarrow> bool" where
  "blank s = (js_trim s = [])"

text \<open>\<open>s.split(sep).pop()\<close>: what follows the last separator, the whole string without one.\<close>

definition last_segment :: "code_unit \<Rightarrow> jsstring \<Rightarrow> jsstring" where
  "last_segment sep s = rev (takeWhile (\<lambda>c. c \<noteq> sep) (rev s))"

text \<open>A non-negative integer in a template literal: its decimal digits.\<close>

fun decimal :: "nat \<Rightarrow> jsstring" where
  "decimal n =
     (if n < 10 then [0x30 + of_nat n]
      else decimal (n div 10) @ [0x30 + of_nat (n mod 10)])"

text \<open>
  What the handlers take from the runtime: \<open>Date.now()\<close>,
  \<open>Math.random().toString(36).substring(2)\<close>, the instant of \<open>new Date()\<close>, and
  the case conversion of strings that are not ASCII.
\<close>

record runtime =
  date_now :: nat
  random_suffix :: jsstring
  new_date :: nat
  unicode_lower :: case_conversion

section \<open>The Post entity and the data client\<close>

datatype post_status = Draft | Published

text \<open>
  The interface \<open>BlogPost\<close>. The field \<open>id\<close> is \<open>post_id\<close> here; the two
  timestamps are instants (the store orders by them, the views only print them).
\<close>

record BlogPost =
  post_id :: jsstring
  title :: jsstring
  content :: jsstring
  excerpt :: "jsstring option"
  image_url :: "jsstring option"
  image_name :: "jsstring option"
  slug :: jsstring
  status :: post_status
  created_at :: nat
  updated_at :: nat

record File =
  file_name :: jsstring
  file_bytes :: "8 word list"

text \<open>The object literal of the insert request, and the one of the update request.\<close>

record insert_row =
  ins_title :: jsstring
  ins_content :: jsstring
  ins_excerpt :: "jsstring option"
  ins_image_url :: "jsstring option"
  ins_image_name :: "jsstring option"
  ins_slug :: jsstring
  ins_status :: post_status

record update_row =
  upd_title :: jsstring
  upd_content :: jsstring
  upd_excerpt :: "jsstring option"
  upd_image_url :: "jsstring option"
  upd_image_name :: "jsstring option"
  upd_slug :: jsstring
  upd_status :: post_status
  upd_updated_at :: nat

text \<open>
  A query as the builder calls make it: \<open>from(t).select(c)\<close>, each \<open>.eq(column, v)\<close>
  in order, \<open>.order(column, {ascending})\<close>, \<open>.limit(n)\<close> and \<open>.single()\<close>.
\<close>

record query =
  q_table :: jsstring
  q_columns :: jsstring
  q_eq :: "(jsstring \<times> jsstring) list"
  q_order :: "(jsstring \<times> bool) option"
  q_limit :: "nat option"
  q_single :: bool

datatype request =
    Select query
  | Insert jsstring insert_row
  | Update jsstring update_row "(jsstring \<times> jsstring) list"
  | Upload jsstring jsstring File
  | Remove jsstring "jsstring list"

text \<open>
  What an awaited call gives back: the object \<open>{data, error}\<close>, or nothing because the
  promise was rejected (the \<open>catch\<close> block runs).
\<close>

record db_error =
  err_code :: jsstring
  err_message :: jsstring

datatype 'a reply = Reply "'a option" "db_error option" | Rejected

text \<open>
  The data client is the hosted service: the views know it only by its answers. It is a
  parameter of every handler.
\<close>

record data_client =
  select_rows :: "query \<Rightarrow> BlogPost list reply"
  select_single :: "query \<Rightarrow> BlogPost reply"
  insert_rows :: "jsstring \<Rightarrow> insert_row \<Rightarrow> BlogPost list reply"
  update_rows :: "jsstring \<Rightarrow> update_row \<Rightarrow> (jsstring \<times> jsstring) list \<Rightarrow> BlogPost list reply"
  storage_upload :: "jsstring \<Rightarrow> jsstring \<Rightarrow> File \<Rightarrow> unit reply"
  storage_remove :: "jsstring \<Rightarrow> jsstring list \<Rightarrow> unit reply"
  public_url :: "jsstring \<Rightarrow> jsstring \<Rightarrow> jsstring"

text \<open>What a handler does that is seen from outside, in the order it does it.\<close>

datatype effect =
    Issued request
  | Alert jsstring
  | ConsoleError jsstring
  | RouterPush jsstring

fun requests_of :: "effect list \<Rightarrow> request list" where
  "requests_of [] = []"
| "requests_of (Issued r # es) = r # requests_of es"
| "requests_of (e # es) = requests_of es"

fun alerts_of :: "effect list \<Rightarrow> jsstring list" where
  "alerts_of [] = []"
| "alerts_of (Alert a # es) = a # alerts_of es"
| "alerts_of (e # es) = alerts_of es"

fun is_insert :: "request \<Rightarrow> bool" where
  "is_insert (Insert t r) = True"
| "is_insert r = False"

definition posts_table :: jsstring where
  "posts_table = js ''blog_posts''"

definition images_bucket :: jsstring where
  "images_bucket = js ''blog-images''"

definition status_text :: "post_status \<Rightarrow> jsstring" where
  "status_text st = (case st of Draft \<Rightarrow> js ''draft'' | Published \<Rightarrow> js ''published'')"

section \<open>The store's row query\<close>

text \<open>
  Modelled from the spec: the hosted store that answers a row query is not part of the
  repository. Section 6 gives its contract: equality filters on columns, an optional
  order by a timestamp column, ascending or descending, and an optional limit.
\<close>

definition column_text :: "jsstring \<Rightarrow> BlogPost \<Rightarrow> jsstring option" where
  "column_text col r =
     (if col = js ''id'' then Some (post_id r)
      else if col = js ''title'' then Some (title r)
      else if col = js ''content'' then Some (content r)
      else if col = js ''excerpt'' then excerpt r
      else if col = js ''image_url'' then image_url r
      else if col = js ''image_name'' then image_name r
      else if col = js ''slug'' then Some (slug r)
      else if col = js ''status'' then Some (status_text (status r))
      else None)"

definition matches :: "BlogPost \<Rightarrow> jsstring \<times> jsstring \<Rightarrow> bool" where
  "matches r f = (column_text (fst f) r = Some (snd f))"

definition order_rows :: "(jsstring \<times> bool) option \<Rightarrow> BlogPost list \<Rightarrow> BlogPost list" where
  "order_rows ord rows =
     (case ord of
        None \<Rightarrow> rows
      | Some (col, ascending) \<Rightarrow>
          (if col = js ''created_at''
           then (if ascending then sort_key created_at rows else rev (sort_key created_at rows))
           else if col = js ''updated_at''
           then (if ascending then sort_key updated_at rows else rev (sort_key updated_at rows))
           else rows))"

definition run_query :: "query \<Rightarrow> BlogPost list \<Rightarrow> BlogPost list" where
  "run_query q rows =
     (let found = order_rows (q_order q) (filter (\<lambda>r. list_all (matches r) (q_eq q)) rows)
      in case q_limit q of None \<Rightarrow> found | Some n \<Rightarrow> take n found)"

definition newest_first :: "BlogPost list \<Rightarrow> bool" where
  "newest_first rows = sorted_wrt (\<lambda>a b. created_at b \<le> created_at a) rows"

section \<open>Listing view\<close>

text \<open>
  \<^verbatim>\<open>
  const fetchPosts = async (): Promise<void> => {
    try {
      const { data, error } = await supabase
        .from("blog_posts")
        .select("*")
        .eq("status", "published") // Only published posts
        .order("created_at", { ascending: false }); // Latest first

      if (error) throw error;
      setPosts(data || []);
    } catch (error) {
      console.error("Error fetching posts:", error);
    } finally {
      setLoading(false);
    }
  };
  \<close>
\<close>

record list_state =
  list_posts :: "BlogPost list"
  list_loading :: bool

definition fetchPosts_query :: query where
  "fetchPosts_query =
     \<lparr>q_table = posts_table, q_columns = js ''*'',
      q_eq = [(js ''status'', js ''published'')],
      q_order = Some (js ''created_at'', False), q_limit = None, q_single = False\<rparr>"

definition fetchPosts :: "data_client \<Rightarrow> list_state \<Rightarrow> list_state \<times> effect list" where
  "fetchPosts cl s =
     (case select_rows cl fetchPosts_query of
        Reply d None \<Rightarrow>
          (s\<lparr>list_posts := (case d of Some rows \<Rightarrow> rows | None \<Rightarrow> []), list_loading := False\<rparr>,
           [Issued (Select fetchPosts_query)])
      | _ \<Rightarrow>
          (s\<lparr>list_loading := False\<rparr>,
           [Issued (Select fetchPosts_query), ConsoleError (js ''Error fetching posts:'')]))"

section \<open>Detail view\<close>

text \<open>
  \<^verbatim>\<open>
  const fetchPost = useCallback(async (): Promise<void> => {
    try {
      const { data, error } = await supabase
        .from("blog_posts")
        .select("*")
        .eq("slug", slug)
        .eq("status", "published") // Only published posts
        .single(); // Get single record

      if (error) {
        if (error.code === "PGRST116") {
          // No rows returned
          setError("Blog post not found");
        } else {
          throw error;
        }
        return;
      }

      setPost(data);
    } catch (error) {
      console.error("Error fetching post:", error);
      setError("Error loading blog post");
    } finally {
      setLoading(false);
    }
  }, [slug]);
  \<close>
  The component starts with \<open>post = null\<close>, \<open>loading = true\<close>, \<open>error = ""\<close>, and
  shows the spinner while loading, the message \<open>error || "Blog post not found"\<close> when
  \<open>error || !post\<close>, the post otherwise.
\<close>

record detail_state =
  detail_post :: "BlogPost option"
  detail_loading :: bool
  detail_error :: jsstring

definition detail_initial :: detail_state where
  "detail_initial = \<lparr>detail_post = None, detail_loading = True, detail_error = []\<rparr>"

definition no_rows_code :: jsstring where
  "no_rows_code = js ''PGRST116''"

definition detail_query :: "jsstring \<Rightarrow> query" where
  "detail_query slug_param =
     \<lparr>q_table = posts_table, q_columns = js ''*'',
      q_eq = [(js ''slug'', slug_param), (js ''status'', js ''published'')],
      q_order = None, q_limit = None, q_single = True\<rparr>"

definition detail_fetchPost ::
  "data_client \<Rightarrow> jsstring \<Rightarrow> detail_state \<Rightarrow> detail_state \<times> effect list" where
  "detail_fetchPost cl slug_param s =
     (case select_single cl (detail_query slug_param) of
        Reply d (Some e) \<Rightarrow>
          (if err_code e = no_rows_code
           then (s\<lparr>detail_error := js ''Blog post not found'', detail_loading := False\<rparr>,
                 [Issued (Select (detail_query slug_param))])
           else (s\<lparr>detail_error := js ''Error loading blog post'', detail_loading := False\<rparr>,
                 [Issued (Select (detail_query slug_param)),
                  ConsoleError (js ''Error fetching post:'')]))
      | Reply d None \<Rightarrow>
          (s\<lparr>detail_post := d, detail_loading := False\<rparr>,
           [Issued (Select (detail_query slug_param))])
      | Rejected \<Rightarrow>
          (s\<lparr>detail_error := js ''Error loading blog post'', detail_loading := False\<rparr>,
           [Issued (Select (detail_query slug_param)),
            ConsoleError (js ''Error fetching post:'')]))"

datatype detail_view = DetailLoading | DetailMessage jsstring | DetailPost BlogPost

definition detail_render :: "detail_state \<Rightarrow> detail_view" where
  "detail_render s =
     (if detail_loading s then DetailLoading
      else if detail_error s \<noteq> [] then DetailMessage (detail_error s)
      else (case detail_post s of
              None \<Rightarrow> DetailMessage (js ''Blog post not found'')
            | Some p \<Rightarrow> DetailPost p))"

text \<open>The outcomes of the fetch the specification tells apart.\<close>

datatype fetch_outcome = Found BlogPost | NoRows | OtherFailure | NoData

definition outcome_of :: "BlogPost reply \<Rightarrow> fetch_outcome" where
  "outcome_of r =
     (case r of
        Rejected \<Rightarrow> OtherFailure
      | Reply d (Some e) \<Rightarrow> (if err_code e = no_rows_code then NoRows else OtherFailure)
      | Reply None None \<Rightarrow> NoData
      | Reply (Some p) None \<Rightarrow> Found p)"

section \<open>Edit view: the initial fetch\<close>

text \<open>
  \<^verbatim>\<open>
  const fetchPost = useCallback(async (): Promise<void> => {
    try {
      const { data, error } = await supabase
        .from("blog_posts")
        .select("*")
        .eq("id", postId)
        .single();

      if (error) throw error;

      // Populate form with existing data
      setPost(data);
      setTitle(data.title);
      setContent(data.content);
      setExcerpt(data.excerpt || "");
      setStatus(data.status);
    } catch (error) {
      console.error("Error fetching post:", error);
      setError("Post not found");
    } finally {
      setLoading(false);
    }
  }, [postId]);
  \<close>
  With neither an error nor a row, \<open>data.title\<close> throws and the \<open>catch\<close> block runs.
  The component shows the spinner while loading, the message
  \<open>error || "Post not found"\<close> when \<open>error || !post\<close>, the form otherwise.
\<close>

record edit_state =
  edit_post :: "BlogPost option"
  edit_title :: jsstring
  edit_content :: jsstring
  edit_excerpt :: jsstring
  edit_selectedFile :: "File option"
  edit_status :: post_status
  edit_loading :: bool
  edit_updating :: bool
  edit_error :: jsstring

definition edit_query :: "jsstring \<Rightarrow> query" where
  "edit_query postId =
     \<lparr>q_table = posts_table, q_columns = js ''*'', q_eq = [(js ''id'', postId)],
      q_order = None, q_limit = None, q_single = True\<rparr>"

definition edit_fetchPost ::
  "data_client \<Rightarrow> jsstring \<Rightarrow> edit_state \<Rightarrow> edit_state \<times> effect list" where
  "edit_fetchPost cl postId s =
     (case select_single cl (edit_query postId) of
        Reply (Some p) None \<Rightarrow>
          (s\<lparr>edit_post := Some p, edit_title := title p, edit_content := content p,
             edit_excerpt := (case or_null (excerpt p) of Some x \<Rightarrow> x | None \<Rightarrow> []),
             edit_status := status p, edit_loading := False\<rparr>,
           [Issued (Select (edit_query postId))])
      | Reply None None \<Rightarrow>
          (s\<lparr>edit_post := None, edit_error := js ''Post not found'', edit_loading := False\<rparr>,
           [Issued (Select (edit_query postId)), ConsoleError (js ''Error fetching post:'')])
      | _ \<Rightarrow>
          (s\<lparr>edit_error := js ''Post not found'', edit_loading := False\<rparr>,
           [Issued (Select (edit_query postId)), ConsoleError (js ''Error fetching post:'')]))"

datatype edit_view = EditLoading | EditMessage jsstring | EditForm edit_state

definition edit_render :: "edit_state \<Rightarrow> edit_view" where
  "edit_render s =
     (if edit_loading s then EditLoading
      else if edit_error s \<noteq> [] then EditMessage (edit_error s)
      else (case edit_post s of
              None \<Rightarrow> EditMessage (js ''Post not found'')
            | Some p \<Rightarrow> EditForm s))"

section \<open>Uploading and deleting images\<close>

text \<open>
  \<^verbatim>\<open>
  const fileExt = file.name.split(".").pop();
  const fileName = `${Date.now()}-${Math.random()
    .toString(36)
    .substring(2)}.${fileExt}`;
  \<close>
\<close>

definition generated_name :: "runtime \<Rightarrow> File \<Rightarrow> jsstring" where
  "generated_name rt f =
     decimal (date_now rt) @ js ''-'' @ random_suffix rt @ js ''.'' @
     last_segment 0x2E (file_name f)"

text \<open>
  \<open>uploadImage\<close> of the create view: the upload, \<open>if (error) throw error\<close>, the
  public URL; the \<open>catch\<close> block logs, alerts and returns \<open>null\<close>.
\<close>

definition add_uploadImage ::
  "data_client \<Rightarrow> runtime \<Rightarrow> File \<Rightarrow> jsstring option \<times> effect list" where
  "add_uploadImage cl rt f =
     (let fileName = generated_name rt f in
      case storage_upload cl images_bucket fileName f of
        Reply d None \<Rightarrow>
          (Some (public_url cl images_bucket fileName),
           [Issued (Upload images_bucket fileName f)])
      | _ \<Rightarrow>
          (None,
           [Issued (Upload images_bucket fileName f),
            ConsoleError (js ''Error uploading image:''),
            Alert (js ''Error uploading image!'')]))"

text \<open>\<open>uploadImage\<close> of the edit view: the same, but its \<open>catch\<close> block only logs.\<close>

definition edit_uploadImage ::
  "data_client \<Rightarrow> runtime \<Rightarrow> File \<Rightarrow> jsstring option \<times> effect list" where
  "edit_uploadImage cl rt f =
     (let fileName = generated_name rt f in
      case storage_upload cl images_bucket fileName f of
        Reply d None \<Rightarrow>
          (Some (public_url cl images_bucket fileName),
           [Issued (Upload images_bucket fileName f)])
      | _ \<Rightarrow>
          (None,
           [Issued (Upload images_bucket fileName f),
            ConsoleError (js ''Error uploading image:'')]))"

text \<open>
  \<^verbatim>\<open>
  const deleteOldImage = async (imageUrl: string): Promise<void> => {
    try {
      const fileName = imageUrl.split("/").pop();
      if (fileName) {
        await supabase.storage.from("blog-images").remove([fileName]);
      }
    } catch (error) {
      console.error("Error deleting old image:", error);
    }
  };
  \<close>
  The answer of the store is not read; only a rejected promise is logged.
\<close>

definition deleteOldImage :: "data_client \<Rightarrow> jsstring \<Rightarrow> effect list" where
  "deleteOldImage cl imageUrl =
     (let fileName = last_segment 0x2F imageUrl in
      if fileName \<noteq> [] then
        (case storage_remove cl images_bucket [fileName] of
           Rejected \<Rightarrow>
             [Issued (Remove images_bucket [fileName]),
              ConsoleError (js ''Error deleting old image:'')]
         | Reply d e \<Rightarrow> [Issued (Remove images_bucket [fileName])])
      else [])"

section \<open>Create view: the submit handler\<close>

text \<open>
  \<^verbatim>\<open>
  if (!title.trim() || !content.trim()) {
    alert("Title and content are required!");
    return;
  }
  try {
    setLoading(true);
    let imageUrl = null;
    let imageName = null;
    if (selectedFile) {
      imageUrl = await uploadImage(selectedFile);
      imageName = selectedFile.name;
      if (!imageUrl) {
        setLoading(false);
        return;
      }
    }
    const slug = generateSlug(title);
    const { data, error } = await supabase
      .from("blog_posts")
      .insert([{ title: title.trim(), content: content.trim(),
                 excerpt: excerpt.trim() || null, image_url: imageUrl,
                 image_name: imageName, slug: slug, status: status }])
      .select();
    if (error) {
      console.error("Database error:", error);
      alert("Error saving blog post: " + error.message);
      return;
    }
    if (data && data[0]) {
      alert("Blog post created successfully!");
      setTitle(""); setContent(""); setExcerpt("");
      setSelectedFile(null); setStatus("published");
      router.push('/admin')
    }
  } catch (error) {
    console.error("Error creating blog post:", error);
    alert("Unexpected error occurred!");
  } finally {
    setLoading(false);
  }
  \<close>
  The handler starts with \<open>e.preventDefault()\<close>, which only stops the browser's own
  submission of the form. The state is the one the component holds when the handler
  returns.
\<close>

record add_state =
  add_title :: jsstring
  add_content :: jsstring
  add_excerpt :: jsstring
  add_selectedFile :: "File option"
  add_status :: post_status
  add_loading :: bool

definition add_row ::
  "runtime \<Rightarrow> add_state \<Rightarrow> jsstring option \<Rightarrow> jsstring option \<Rightarrow> insert_row" where
  "add_row rt s imageUrl imageName =
     \<lparr>ins_title = js_trim (add_title s), ins_content = js_trim (add_content s),
      ins_excerpt = or_null (Some (js_trim (add_excerpt s))),
      ins_image_url = imageUrl, ins_image_name = imageName,
      ins_slug = generateSlug (unicode_lower rt) (add_title s), ins_status = add_status s\<rparr>"

definition add_insert ::
  "data_client \<Rightarrow> runtime \<Rightarrow> add_state \<Rightarrow> jsstring option \<Rightarrow> jsstring option \<Rightarrow> effect list \<Rightarrow>
   add_state \<times> effect list" where
  "add_insert cl rt s imageUrl imageName before =
     (let row = add_row rt s imageUrl imageName
      in case insert_rows cl posts_table row of
           Rejected \<Rightarrow>
             (s\<lparr>add_loading := False\<rparr>,
              before @ [Issued (Insert posts_table row),
                        ConsoleError (js ''Error creating blog post:''),
                        Alert (js ''Unexpected error occurred!'')])
         | Reply d (Some e) \<Rightarrow>
             (s\<lparr>add_loading := False\<rparr>,
              before @ [Issued (Insert posts_table row),
                        ConsoleError (js ''Database error:''),
                        Alert (js ''Error saving blog post: '' @ err_message e)])
         | Reply (Some (r # rs)) None \<Rightarrow>
             (s\<lparr>add_title := [], add_content := [], add_excerpt := [],
                add_selectedFile := None, add_status := Published, add_loading := False\<rparr>,
              before @ [Issued (Insert posts_table row),
                        Alert (js ''Blog post created successfully!''),
                        RouterPush (js ''/admin'')])
         | Reply d None \<Rightarrow>
             (s\<lparr>add_loading := False\<rparr>, before @ [Issued (Insert posts_table row)]))"

definition add_handleSubmit ::
  "data_client \<Rightarrow> runtime \<Rightarrow> add_state \<Rightarrow> add_state \<times> effect list" where
  "add_handleSubmit cl rt s =
     (if blank (add_title s) \<or> blank (add_content s)
      then (s, [Alert (js ''Title and content are required!'')])
      else
        (case add_selectedFile s of
           None \<Rightarrow> add_insert cl rt s None None []
         | Some f \<Rightarrow>
             (case add_uploadImage cl rt f of
                (imageUrl, uploaded) \<Rightarrow>
                  if \<not> truthy imageUrl then (s\<lparr>add_loading := False\<rparr>, uploaded)
                  else add_insert cl rt s imageUrl (Some (file_name f)) uploaded)))"

section \<open>Edit view: the submit handler\<close>

text \<open>
  \<^verbatim>\<open>
  if (!title.trim() || !content.trim()) {
    alert("Title and content are required!");
    return;
  }
  try {
    setUpdating(true);
    let imageUrl = post?.image_url || null;
    let imageName = post?.image_name || null;
    if (selectedFile) {
      if (post?.image_url) {
        await deleteOldImage(post.image_url);
      }
      imageUrl = await uploadImage(selectedFile);
      imageName = selectedFile.name;
      if (!imageUrl) {
        alert("Error uploading image!");
        setUpdating(false);
        return;
      }
    }
    const slug = generateSlug(title);
    const { error } = await supabase
      .from("blog_posts")
      .update({ title: title.trim(), content: content.trim(),
                excerpt: excerpt.trim() || null, image_url: imageUrl,
                image_name: imageName, slug: slug, status: status,
                updated_at: new Date().toISOString() })
      .eq("id", postId)
      .select();
    if (error) {
      console.error("Database error:", error);
      alert("Error updating post: " + error.message);
      return;
    }
    alert("Post updated successfully!");
    router.push("/admin");
  } catch (error) {
    console.error("Error updating post:", error);
    alert("Unexpected error occurred!");
  } finally {
    setUpdating(false);
  }
  \<close>
\<close>

definition edit_row ::
  "runtime \<Rightarrow> edit_state \<Rightarrow> jsstring option \<Rightarrow> jsstring option \<Rightarrow> update_row" where
  "edit_row rt s imageUrl imageName =
     \<lparr>upd_title = js_trim (edit_title s), upd_content = js_trim (edit_content s),
      upd_excerpt = or_null (Some (js_trim (edit_excerpt s))),
      upd_image_url = imageUrl, upd_image_name = imageName,
      upd_slug = generateSlug (unicode_lower rt) (edit_title s), upd_status = edit_status s,
      upd_updated_at = new_date rt\<rparr>"

definition edit_update ::
  "data_client \<Rightarrow> runtime \<Rightarrow> jsstring \<Rightarrow> edit_state \<Rightarrow> jsstring option \<Rightarrow> jsstring option \<Rightarrow>
   effect list \<Rightarrow> edit_state \<times> effect list" where
  "edit_update cl rt postId s imageUrl imageName before =
     (let row = edit_row rt s imageUrl imageName
      in case update_rows cl posts_table row [(js ''id'', postId)] of
           Rejected \<Rightarrow>
             (s\<lparr>edit_updating := False\<rparr>,
              before @ [Issued (Update posts_table row [(js ''id'', postId)]),
                        ConsoleError (js ''Error updating post:''),
                        Alert (js ''Unexpected error occurred!'')])
         | Reply d (Some e) \<Rightarrow>
             (s\<lparr>edit_updating := False\<rparr>,
              before @ [Issued (Update posts_table row [(js ''id'', postId)]),
                        ConsoleError (js ''Database error:''),
                        Alert (js ''Error updating post: '' @ err_message e)])
         | Reply d None \<Rightarrow>
             (s\<lparr>edit_updating := False\<rparr>,
              before @ [Issued (Update posts_table row [(js ''id'', postId)]),
                        Alert (js ''Post updated successfully!''),
                        RouterPush (js ''/admin'')]))"

text \<open>\<open>post?.image_url\<close> and \<open>post?.image_name\<close>: nothing without a post.\<close>

definition post_image_url :: "BlogPost option \<Rightarrow> jsstring option" where
  "post_image_url po = (case po of None \<Rightarrow> None | Some p \<Rightarrow> image_url p)"

definition post_image_name :: "BlogPost option \<Rightarrow> jsstring option" where
  "post_image_name po = (case po of None \<Rightarrow> None | Some p \<Rightarrow> image_name p)"

definition edit_handleSubmit ::
  "data_client \<Rightarrow> runtime \<Rightarrow> jsstring \<Rightarrow> edit_state \<Rightarrow> edit_state \<times> effect list" where
  "edit_handleSubmit cl rt postId s =
     (if blank (edit_title s) \<or> blank (edit_content s)
      then (s, [Alert (js ''Title and content are required!'')])
      else
        (case edit_selectedFile s of
           None \<Rightarrow>
             edit_update cl rt postId s (or_null (post_image_url (edit_post s)))
               (or_null (post_image_name (edit_post s))) []
         | Some f \<Rightarrow>
             (let deleted =
                    (case post_image_url (edit_post s) of
                       None \<Rightarrow> []
                     | Some u \<Rightarrow> if u \<noteq> [] then deleteOldImage cl u else [])
              in case edit_uploadImage cl rt f of
                   (imageUrl, uploaded) \<Rightarrow>
                     if \<not> truthy imageUrl
                     then (s\<lparr>edit_updating := False\<rparr>,
                           deleted @ uploaded @ [Alert (js ''Error uploading image!'')])
                     else edit_update cl rt postId s imageUrl (Some (file_name f))
                            (deleted @ uploaded))))"

section \<open>Reading the answers, and a client for the scenarios\<close>

text \<open>An upload has failed when its answer carries an error or its promise was rejected.\<close>

definition upload_failed :: "unit reply \<Rightarrow> bool" where
  "upload_failed r = (case r of Reply d None \<Rightarrow> False | _ \<Rightarrow> True)"

text \<open>
  A client with fixed answers: row queries are answered from a table by \<open>run_query\<close>,
  every other call with the answer given for it.
\<close>

definition scripted_client ::
  "BlogPost list \<Rightarrow> BlogPost reply \<Rightarrow> BlogPost list reply \<Rightarrow> unit reply \<Rightarrow> unit reply \<Rightarrow>
   data_client" where
  "scripted_client rows one written uploaded removed =
     \<lparr>select_rows = (\<lambda>q. Reply (Some (run_query q rows)) None),
      select_single = (\<lambda>q. one),
      insert_rows = (\<lambda>t r. written),
      update_rows = (\<lambda>t r f. written),
      storage_upload = (\<lambda>b n f. uploaded),
      storage_remove = (\<lambda>b ns. removed),
      public_url = (\<lambda>b n. js ''https://cdn.example/'' @ b @ js ''/'' @ n)\<rparr>"

definition sample_post :: "string \<Rightarrow> post_status \<Rightarrow> nat \<Rightarrow> BlogPost" where
  "sample_post name st created =
     \<lparr>post_id = js name, title = js name, content = js ''Text'', excerpt = None,
      image_url = None, image_name = None, slug = js name, status = st,
      created_at = created, updated_at = created\<rparr>"

text \<open>
  The image fields of a post as the views store them: \<open>null\<close> or a string that is
  not empty (an uploaded object's URL, the chosen file's name).
\<close>

definition image_fields_stored :: "BlogPost \<Rightarrow> bool" where
  "image_fields_stored p = (image_url p \<noteq> Some [] \<and> image_name p \<noteq> Some [])"

definition is_found :: "BlogPost reply \<Rightarrow> bool" where
  "is_found r = (case r of Reply (Some p) None \<Rightarrow> True | _ \<Rightarrow> False)"

definition sample_file :: File where
  "sample_file = \<lparr>file_name = js ''new.png'', file_bytes = []\<rparr>"

text \<open>
  The scenarios have ASCII titles only, on which the case conversion beyond ASCII is
  never asked; the sample runtime gives it as the identity.
\<close>

definition sample_runtime :: runtime where
  "sample_runtime =
     \<lparr>date_now = 1700, random_suffix = js ''k3x9'', new_date = 1701,
      unicode_lower = (\<lambda>s. s)\<rparr>"

definition sample_lower :: case_conversion where
  "sample_lower = unicode_lower sample_runtime"

definition sample_failure :: db_error where
  "sample_failure = \<lparr>err_code = js ''500'', err_message = js ''failure''\<rparr>"

definition with_image :: "BlogPost \<Rightarrow> string \<Rightarrow> BlogPost" where
  "with_image p u = p\<lparr>image_url := Some (js u), image_name := Some (js ''old.png'')\<rparr>"

definition sample_add_state :: "string \<Rightarrow> string \<Rightarrow> File option \<Rightarrow> add_state" where
  "sample_add_state t c f =
     \<lparr>add_title = js t, add_content = js c, add_excerpt = [], add_selectedFile = f,
      add_status = Published, add_loading = False\<rparr>"

definition sample_edit_state ::
  "BlogPost option \<Rightarrow> string \<Rightarrow> string \<Rightarrow> File option \<Rightarrow> edit_state" where
  "sample_edit_state po t c f =
     \<lparr>edit_post = po, edit_title = js t, edit_content = js c, edit_excerpt = [],
      edit_selectedFile = f, edit_status = Published, edit_loading = False,
      edit_updating = False, edit_error = []\<rparr>"

definition client_ok :: data_client where
  "client_ok =
     scripted_client [] Rejected (Reply (Some []) None) (Reply (Some ()) None)
       (Reply (Some ()) None)"

definition client_upload_fails :: data_client where
  "client_upload_fails =
     scripted_client [] Rejected (Reply (Some []) None) (Reply None (Some sample_failure))
       (Reply (Some ()) None)"

definition sample_old_post :: BlogPost where
  "sample_old_post =
     with_image (sample_post ''seven'' Published 10) ''https://cdn.example/blog-images/old.png''"

section \<open>Slug derivation: a scenario\<close>

lemmas slug_eval_defs =
  generateSlug_def generateSlug_with_def js_trim_def collapse_hyphens_def
  spaces_to_hyphens_def remove_special_def toLowerCase_def lower_ascii_def is_ascii_def is_kept_def
  is_lower_letter_def is_digit_def is_whitespace_def hyphen_def space_def js_def

text \<open>
  C8. The title \<open>Hello, World!  Foo\<close>, with two spaces before \<open>Foo\<close>, gives the
  slug \<open>hello-world-foo\<close>.
\<close>

theorem generateSlug_hello_world:
  "generateSlug beyond (js ''Hello, World!  Foo'') = js ''hello-world-foo''"
  by (simp add: slug_eval_defs)

section \<open>Replacing runs\<close>

lemma set_replace_runs:
  "set (replace_runs p r xs) \<subseteq> set r \<union> {x \<in> set xs. \<not> p x}"
proof (induction p r xs rule: replace_runs.induct)
  case (1 p r)
  show ?case by simp
next
  case (2 p r x xs)
  show ?case
  proof (cases "p x")
    case True
    have "set (dropWhile p xs) \<subseteq> set xs" by (rule set_dropWhileD[THEN subsetI]) 
    with True 2(1) show ?thesis by auto
  next
    case False
    with 2(2) show ?thesis by auto
  qed
qed

lemma replace_runs_id:
  "list_all (\<lambda>x. \<not> p x) xs \<Longrightarrow> replace_runs p r xs = xs"
  by (induction xs) auto

lemma replace_runs_last:
  "xs \<noteq> [] \<Longrightarrow> \<not> p (last xs) \<Longrightarrow>
   replace_runs p [h] xs \<noteq> [] \<and> last (replace_runs p [h] xs) = last xs"
proof (induction p "[h]" xs rule: replace_runs.induct)
  case (1 p)
  then show ?case by simp
next
  case (2 p x xs)
  show ?case
  proof (cases "p x")
    case True
    with 2(4) have ne: "xs \<noteq> []" by auto
    with 2(4) have nl: "\<not> p (last xs)" by simp
    have dne: "dropWhile p xs \<noteq> []"
      using ne nl by (metis dropWhile_eq_Nil_conv last_in_set)
    have dl: "last (dropWhile p xs) = last xs"
      using dne by (metis takeWhile_dropWhile_id last_appendR)
    from 2(1)[OF True dne] nl dl True ne show ?thesis by simp
  next
    case False
    show ?thesis
    proof (cases "xs = []")
      case True
      with False show ?thesis by simp
    next
      case ne: False
      with 2(4) have "\<not> p (last xs)" by simp
      from 2(2)[OF False ne this] False ne show ?thesis by simp
    qed
  qed
qed

lemma no_double_hyphen_Cons:
  "no_double_hyphen (a # s) = ((a = hyphen \<longrightarrow> \<not> starts_with_hyphen s) \<and> no_double_hyphen s)"
  by (cases s) (auto simp: starts_with_hyphen_def)

lemma dropWhile_Cons_not:
  "dropWhile p xs = y # ys \<Longrightarrow> \<not> p y"
  by (induction xs) (auto split: if_splits)

lemma starts_collapse_dropWhile:
  "\<not> starts_with_hyphen (replace_runs (\<lambda>c. c = hyphen) [hyphen] (dropWhile (\<lambda>c. c = hyphen) xs))"
proof -
  define d where "d = dropWhile (\<lambda>c. c = hyphen) xs"
  have "\<not> starts_with_hyphen (replace_runs (\<lambda>c. c = hyphen) [hyphen] d)"
  proof (cases d)
    case Nil
    then show ?thesis by (simp add: starts_with_hyphen_def)
  next
    case (Cons y ys)
    with d_def have "dropWhile (\<lambda>c. c = hyphen) xs = y # ys" by simp
    then have "y \<noteq> hyphen" by (rule dropWhile_Cons_not)
    with Cons show ?thesis by (simp add: starts_with_hyphen_def)
  qed
  then show ?thesis unfolding d_def .
qed

lemma no_double_hyphen_collapse: "no_double_hyphen (collapse_hyphens s)"
  unfolding collapse_hyphens_def
proof (induction "\<lambda>c. c = hyphen" "[hyphen]" s rule: replace_runs.induct)
  case 1
  show ?case by simp
next
  case (2 x xs)
  show ?case
  proof (cases "x = hyphen")
    case True
    with 2(1) starts_collapse_dropWhile[of xs] show ?thesis
      by (simp add: no_double_hyphen_Cons)
  next
    case False
    with 2(2) show ?thesis by (simp add: no_double_hyphen_Cons)
  qed
qed

lemma collapse_id: "no_double_hyphen s \<Longrightarrow> collapse_hyphens s = s"
  unfolding collapse_hyphens_def
proof (induction s)
  case Nil
  show ?case by simp
next
  case (Cons a s)
  then have nd: "no_double_hyphen s" and st: "a = hyphen \<longrightarrow> \<not> starts_with_hyphen s"
    by (simp_all add: no_double_hyphen_Cons)
  show ?case
  proof (cases "a = hyphen")
    case True
    with st have "dropWhile (\<lambda>c. c = hyphen) s = s"
      by (cases s) (auto simp: starts_with_hyphen_def)
    with True Cons.IH[OF nd] show ?thesis by simp
  next
    case False
    with Cons.IH[OF nd] show ?thesis by simp
  qed
qed

section \<open>Character classes\<close>

lemma slug_char_not_whitespace: "is_slug_char c \<Longrightarrow> \<not> is_whitespace c"
  unfolding is_slug_char_def is_whitespace_def is_lower_letter_def is_digit_def hyphen_def
  by (auto simp: word_le_nat_alt)

lemma slug_char_kept: "is_slug_char c \<Longrightarrow> is_kept c"
  by (auto simp: is_slug_char_def is_kept_def)

lemma kept_slug_or_space: "is_kept c \<Longrightarrow> is_slug_char c \<or> c = space"
  by (auto simp: is_slug_char_def is_kept_def)

lemma space_is_whitespace: "is_whitespace space"
  by (simp add: is_whitespace_def space_def)

lemma slug_char_lower_ascii: "is_slug_char c \<Longrightarrow> lower_ascii c = c"
  unfolding is_slug_char_def lower_ascii_def is_lower_letter_def is_digit_def hyphen_def
  by (auto simp: word_le_nat_alt)

lemma slug_char_ascii: "is_slug_char c \<Longrightarrow> is_ascii c"
  unfolding is_slug_char_def is_ascii_def is_lower_letter_def is_digit_def hyphen_def
  by (auto simp: word_le_nat_alt)

lemma js_trim_id: "list_all (\<lambda>c. \<not> is_whitespace c) s \<Longrightarrow> js_trim s = s"
proof (cases s rule: rev_cases)
  case Nil
  then show ?thesis by (simp add: js_trim_def)
next
  case (snoc ys y)
  assume a: "list_all (\<lambda>c. \<not> is_whitespace c) s"
  then have "dropWhile is_whitespace s = s" by (cases s) auto
  moreover from a snoc have "\<not> is_whitespace y" by simp
  ultimately show ?thesis using snoc by (simp add: js_trim_def)
qed

section \<open>The shape of a slug\<close>

lemma ends_with_hyphen_iff: "ends_with_hyphen s = (s \<noteq> [] \<and> last s = hyphen)"
  by (cases s rule: rev_cases) (simp_all add: ends_with_hyphen_def starts_with_hyphen_def)

lemma ends_with_separator_iff:
  "ends_with_separator s = (s \<noteq> [] \<and> (last s = hyphen \<or> last s = space))"
  by (cases s rule: rev_cases) (simp_all add: ends_with_separator_def starts_with_separator_def)

lemma kept_remove_special: "list_all is_kept (remove_special s)"
  by (simp add: remove_special_def list_all_iff)

lemma slug_chars_spaces_to_hyphens:
  assumes "list_all is_kept k"
  shows "list_all is_slug_char (spaces_to_hyphens k)"
proof -
  have "is_slug_char c" if "c \<in> set (spaces_to_hyphens k)" for c
  proof -
    from that set_replace_runs[of is_whitespace "[hyphen]" k]
    have "c = hyphen \<or> (c \<in> set k \<and> \<not> is_whitespace c)"
      by (auto simp: spaces_to_hyphens_def)
    then show ?thesis
    proof
      assume "c = hyphen"
      then show ?thesis by (simp add: is_slug_char_def)
    next
      assume c: "c \<in> set k \<and> \<not> is_whitespace c"
      with assms have "is_kept c" by (simp add: list_all_iff)
      with c kept_slug_or_space[of c] space_is_whitespace show ?thesis by auto
    qed
  qed
  then show ?thesis by (simp add: list_all_iff)
qed

lemma slug_chars_collapse_hyphens:
  assumes "list_all is_slug_char s"
  shows "list_all is_slug_char (collapse_hyphens s)"
proof -
  have "is_slug_char c" if "c \<in> set (collapse_hyphens s)" for c
  proof -
    from that set_replace_runs[of "\<lambda>c. c = hyphen" "[hyphen]" s]
    have "c = hyphen \<or> c \<in> set s"
      by (auto simp: collapse_hyphens_def)
    with assms show ?thesis by (auto simp: is_slug_char_def list_all_iff)
  qed
  then show ?thesis by (simp add: list_all_iff)
qed

lemma slug_chars_no_whitespace:
  "list_all is_slug_char s \<Longrightarrow> list_all (\<lambda>c. \<not> is_whitespace c) s"
  by (auto simp: list_all_iff dest: slug_char_not_whitespace)

lemma generateSlug_with_untrimmed:
  "generateSlug_with lower t =
     collapse_hyphens (spaces_to_hyphens (remove_special (lower t)))"
  unfolding generateSlug_with_def
  by (intro js_trim_id slug_chars_no_whitespace slug_chars_collapse_hyphens
      slug_chars_spaces_to_hyphens kept_remove_special)

lemma pipeline_head:
  assumes k: "list_all is_kept k" and s: "\<not> starts_with_separator k"
  shows "\<not> starts_with_hyphen (collapse_hyphens (spaces_to_hyphens k))"
proof (cases k)
  case Nil
  then show ?thesis
    by (simp add: collapse_hyphens_def spaces_to_hyphens_def starts_with_hyphen_def)
next
  case (Cons y ys)
  with s have y: "y \<noteq> hyphen" "y \<noteq> space" by (simp_all add: starts_with_separator_def)
  from k Cons have "is_kept y" by simp
  with y kept_slug_or_space[of y] have "is_slug_char y" by simp
  then have "\<not> is_whitespace y" by (rule slug_char_not_whitespace)
  with Cons y show ?thesis
    by (simp add: collapse_hyphens_def spaces_to_hyphens_def starts_with_hyphen_def)
qed

lemma pipeline_last:
  assumes k: "list_all is_kept k" and s: "\<not> ends_with_separator k"
  shows "\<not> ends_with_hyphen (collapse_hyphens (spaces_to_hyphens k))"
proof (cases "k = []")
  case True
  then show ?thesis
    by (simp add: collapse_hyphens_def spaces_to_hyphens_def ends_with_hyphen_iff)
next
  case False
  with s have l: "last k \<noteq> hyphen" "last k \<noteq> space" by (simp_all add: ends_with_separator_iff)
  from k False have "is_kept (last k)" by (simp add: list_all_iff)
  with l kept_slug_or_space[of "last k"] have "is_slug_char (last k)" by simp
  then have nw: "\<not> is_whitespace (last k)" by (rule slug_char_not_whitespace)
  from replace_runs_last[of k is_whitespace hyphen] False nw
  have 1: "spaces_to_hyphens k \<noteq> []" "last (spaces_to_hyphens k) = last k"
    by (simp_all add: spaces_to_hyphens_def)
  with l have 2: "\<not> (\<lambda>c. c = hyphen) (last (spaces_to_hyphens k))" by simp
  from replace_runs_last[of "spaces_to_hyphens k" "\<lambda>c. c = hyphen" hyphen] 1 2 l
  show ?thesis by (simp add: collapse_hyphens_def ends_with_hyphen_iff)
qed

text \<open>
  C1, in the form the code satisfies. For every title and every case conversion, the slug holds only lowercase
  letters, digits and hyphens and has no two hyphens in a row; it has no leading
  (trailing) hyphen whenever the lower-cased title, once the characters outside
  \<open>[a-z0-9 -]\<close> are removed, does not begin (end) with a space or a hyphen.
\<close>

theorem generateSlug_shape:
  "list_all is_slug_char (generateSlug_with lower t) \<and>
   no_double_hyphen (generateSlug_with lower t) \<and>
   (\<not> starts_with_separator (remove_special (lower t)) \<longrightarrow>
      \<not> starts_with_hyphen (generateSlug_with lower t)) \<and>
   (\<not> ends_with_separator (remove_special (lower t)) \<longrightarrow>
      \<not> ends_with_hyphen (generateSlug_with lower t))"
  unfolding generateSlug_with_untrimmed
  using kept_remove_special[of "lower t"]
  by (simp add: slug_chars_collapse_hyphens slug_chars_spaces_to_hyphens
      no_double_hyphen_collapse pipeline_head pipeline_last)

theorem generateSlug_shape_witness:
  "\<not> starts_with_separator (remove_special (toLowerCase sample_lower (js ''My 1st Post!''))) \<and>
   \<not> ends_with_separator (remove_special (toLowerCase sample_lower (js ''My 1st Post!''))) \<and>
   generateSlug sample_lower (js ''My 1st Post!'') = js ''my-1st-post'' \<and>
   list_all is_slug_char (generateSlug sample_lower (js ''My 1st Post!'')) \<and>
   no_double_hyphen (generateSlug sample_lower (js ''My 1st Post!'')) \<and>
   \<not> starts_with_hyphen (generateSlug sample_lower (js ''My 1st Post!'')) \<and>
   \<not> ends_with_hyphen (generateSlug sample_lower (js ''My 1st Post!''))"
proof -
  let ?t = "js ''My 1st Post!''"
  have h1: "\<not> starts_with_separator (remove_special (toLowerCase sample_lower ?t))"
    by (simp add: slug_eval_defs starts_with_separator_def)
  have h2: "\<not> ends_with_separator (remove_special (toLowerCase sample_lower ?t))"
    by (simp add: slug_eval_defs ends_with_separator_def starts_with_separator_def)
  have v: "generateSlug sample_lower ?t = js ''my-1st-post''"
    by (simp add: slug_eval_defs)
  from generateSlug_shape[of "toLowerCase sample_lower" ?t] h1 h2 v
  show ?thesis unfolding generateSlug_def by simp
qed

text \<open>
  C1 as stated fails: nothing strips a hyphen, so the title \<open>-a-\<close> keeps its
  leading and its trailing hyphen. (The final \<open>trim()\<close> runs after every space has
  become a hyphen, so it removes nothing.)
\<close>

theorem generateSlug_leading_hyphen_counterexample:
  "generateSlug sample_lower (js ''-a-'') = js ''-a-'' \<and>
   starts_with_hyphen (generateSlug sample_lower (js ''-a-'')) \<and>
   ends_with_hyphen (generateSlug sample_lower (js ''-a-''))"
  by (simp add: slug_eval_defs starts_with_hyphen_def ends_with_hyphen_def)

section \<open>Slugs of slug-shaped titles\<close>

lemma toLowerCase_slug_chars:
  assumes "list_all is_slug_char s"
  shows "toLowerCase beyond s = s"
proof -
  from assms have a: "list_all is_ascii s"
    by (auto simp: list_all_iff dest: slug_char_ascii)
  from assms have "map lower_ascii s = s"
    by (induction s) (simp_all add: slug_char_lower_ascii)
  with a show ?thesis by (simp add: toLowerCase_def)
qed

lemma remove_special_slug_chars: "list_all is_slug_char s \<Longrightarrow> remove_special s = s"
  by (induction s) (simp_all add: remove_special_def slug_char_kept)

lemma spaces_to_hyphens_slug_chars: "list_all is_slug_char s \<Longrightarrow> spaces_to_hyphens s = s"
  unfolding spaces_to_hyphens_def
  by (rule replace_runs_id) (rule slug_chars_no_whitespace)

text \<open>
  C9. On a slug-shaped title (lowercase letters, digits and single hyphens, no hyphen at
  either end) the slug is the title itself, and deriving the slug twice gives the slug,
  whatever the runtime's case conversion beyond ASCII.
\<close>

theorem generateSlug_idempotent:
  assumes "slug_shaped t"
  shows "generateSlug beyond t = t \<and>
         generateSlug beyond (generateSlug beyond t) = generateSlug beyond t"
proof -
  from assms have c: "list_all is_slug_char t" and n: "no_double_hyphen t"
    by (simp_all add: slug_shaped_def)
  have "generateSlug beyond t = t"
    unfolding generateSlug_def generateSlug_with_untrimmed
    by (simp add: toLowerCase_slug_chars[OF c, of beyond] remove_special_slug_chars[OF c]
        spaces_to_hyphens_slug_chars[OF c] collapse_id[OF n])
  then show ?thesis by simp
qed

theorem generateSlug_idempotent_witness:
  "slug_shaped (js ''hello-world-2'') \<and>
   generateSlug sample_lower (js ''hello-world-2'') = js ''hello-world-2'' \<and>
   generateSlug sample_lower (generateSlug sample_lower (js ''hello-world-2'')) =
     generateSlug sample_lower (js ''hello-world-2'')"
proof -
  have h: "slug_shaped (js ''hello-world-2'')"
    by (simp add: slug_shaped_def is_slug_char_def is_lower_letter_def is_digit_def
        hyphen_def js_def starts_with_hyphen_def ends_with_hyphen_def)
  from generateSlug_idempotent[OF h, of sample_lower] h show ?thesis by simp
qed

section \<open>Listing view: the published posts, newest first\<close>

lemma status_text_published: "(status_text st = js ''published'') = (st = Published)"
  by (cases st) (simp_all add: status_text_def js_def)

lemma matches_published:
  "list_all (matches r) (q_eq fetchPosts_query) = (status r = Published)"
  by (simp add: fetchPosts_query_def matches_def column_text_def status_text_published)
     (simp add: js_def)

lemma run_fetchPosts_query:
  "run_query fetchPosts_query rows =
     rev (sort_key created_at (filter (\<lambda>r. status r = Published) rows))"
  unfolding run_query_def matches_published
  by (simp add: fetchPosts_query_def order_rows_def)

lemma newest_first_rev_sort: "newest_first (rev (sort_key created_at rows))"
  unfolding newest_first_def sorted_wrt_rev
  using sorted_sort_key[of created_at rows]
  by (simp add: sorted_map)

text \<open>
  C2. The fetch of the listing view issues one query: the posts whose status is
  \<open>published\<close>, ordered by \<open>created_at\<close> descending, without a limit. When the
  store answers it from any table of posts, the view holds exactly the published posts
  of the table, newest first.
\<close>

theorem fetchPosts_published_newest_first:
  assumes "select_rows cl fetchPosts_query = Reply (Some (run_query fetchPosts_query rows)) None"
  shows "requests_of (snd (fetchPosts cl s)) = [Select fetchPosts_query] \<and>
         q_table fetchPosts_query = js ''blog_posts'' \<and>
         q_eq fetchPosts_query = [(js ''status'', js ''published'')] \<and>
         q_order fetchPosts_query = Some (js ''created_at'', False) \<and>
         q_limit fetchPosts_query = None \<and>
         set (list_posts (fst (fetchPosts cl s))) = {r \<in> set rows. status r = Published} \<and>
         mset (list_posts (fst (fetchPosts cl s))) = mset (filter (\<lambda>r. status r = Published) rows) \<and>
         newest_first (list_posts (fst (fetchPosts cl s)))"
proof -
  have posts: "list_posts (fst (fetchPosts cl s)) =
      rev (sort_key created_at (filter (\<lambda>r. status r = Published) rows))"
    by (simp add: fetchPosts_def assms run_fetchPosts_query)
  have req: "requests_of (snd (fetchPosts cl s)) = [Select fetchPosts_query]"
    by (simp add: fetchPosts_def assms)
  have q: "q_table fetchPosts_query = js ''blog_posts'' \<and>
         q_eq fetchPosts_query = [(js ''status'', js ''published'')] \<and>
         q_order fetchPosts_query = Some (js ''created_at'', False) \<and>
         q_limit fetchPosts_query = None"
    by (simp add: fetchPosts_query_def posts_table_def)
  have s: "set (list_posts (fst (fetchPosts cl s))) = {r \<in> set rows. status r = Published}"
    unfolding posts by auto
  have m: "mset (list_posts (fst (fetchPosts cl s))) = mset (filter (\<lambda>r. status r = Published) rows)"
    unfolding posts by simp
  have n: "newest_first (list_posts (fst (fetchPosts cl s)))"
    unfolding posts by (rule newest_first_rev_sort)
  from req q s m n show ?thesis by simp
qed

theorem fetchPosts_published_newest_first_witness:
  "select_rows
     (scripted_client
        [sample_post ''jan'' Published 20240101, sample_post ''mid'' Draft 20240115,
         sample_post ''feb'' Published 20240201] Rejected Rejected Rejected Rejected)
     fetchPosts_query =
   Reply (Some (run_query fetchPosts_query
        [sample_post ''jan'' Published 20240101, sample_post ''mid'' Draft 20240115,
         sample_post ''feb'' Published 20240201])) None \<and>
   list_posts (fst (fetchPosts
     (scripted_client
        [sample_post ''jan'' Published 20240101, sample_post ''mid'' Draft 20240115,
         sample_post ''feb'' Published 20240201] Rejected Rejected Rejected Rejected)
     \<lparr>list_posts = [], list_loading = True\<rparr>)) =
   [sample_post ''feb'' Published 20240201, sample_post ''jan'' Published 20240101] \<and>
   newest_first (list_posts (fst (fetchPosts
     (scripted_client
        [sample_post ''jan'' Published 20240101, sample_post ''mid'' Draft 20240115,
         sample_post ''feb'' Published 20240201] Rejected Rejected Rejected Rejected)
     \<lparr>list_posts = [], list_loading = True\<rparr>)))"
proof -
  let ?rows = "[sample_post ''jan'' Published 20240101, sample_post ''mid'' Draft 20240115,
         sample_post ''feb'' Published 20240201]"
  let ?cl = "scripted_client ?rows Rejected Rejected Rejected Rejected"
  have h: "select_rows ?cl fetchPosts_query = Reply (Some (run_query fetchPosts_query ?rows)) None"
    by (simp add: scripted_client_def)
  have v: "list_posts (fst (fetchPosts ?cl \<lparr>list_posts = [], list_loading = True\<rparr>)) =
      [sample_post ''feb'' Published 20240201, sample_post ''jan'' Published 20240101]"
    unfolding fetchPosts_def h run_fetchPosts_query
    by (simp add: sample_post_def)
  from fetchPosts_published_newest_first[OF h, of "\<lparr>list_posts = [], list_loading = True\<rparr>"]
  have n: "newest_first (list_posts (fst (fetchPosts ?cl \<lparr>list_posts = [], list_loading = True\<rparr>)))"
    by simp
  from h v n show ?thesis by simp
qed

section \<open>Detail view: the three outcomes\<close>

text \<open>
  C3. After the fetch of the detail view, started from the initial state: a row without
  an error is rendered; an error with the store's no-rows code gives the message
  \<open>Blog post not found\<close>; every other error, and a rejected promise, gives the message
  \<open>Error loading blog post\<close>, which is a different message. (An answer with neither a
  row nor an error, which the store does not give in single-row mode, also shows the
  not-found message.)
\<close>

theorem detail_fetch_outcomes:
  "detail_render (fst (detail_fetchPost cl sl detail_initial)) =
     (case outcome_of (select_single cl (detail_query sl)) of
        Found p \<Rightarrow> DetailPost p
      | NoRows \<Rightarrow> DetailMessage (js ''Blog post not found'')
      | OtherFailure \<Rightarrow> DetailMessage (js ''Error loading blog post'')
      | NoData \<Rightarrow> DetailMessage (js ''Blog post not found'')) \<and>
   js ''Blog post not found'' \<noteq> js ''Error loading blog post'' \<and>
   requests_of (snd (detail_fetchPost cl sl detail_initial)) = [Select (detail_query sl)] \<and>
   q_eq (detail_query sl) = [(js ''slug'', sl), (js ''status'', js ''published'')] \<and>
   q_single (detail_query sl)"
proof -
  have ne: "js ''Blog post not found'' \<noteq> js ''Error loading blog post''"
    by (simp add: js_def)
  have ne1: "js ''Blog post not found'' \<noteq> []" and ne2: "js ''Error loading blog post'' \<noteq> []"
    by (simp_all add: js_def)
  have r: "detail_render (fst (detail_fetchPost cl sl detail_initial)) =
     (case outcome_of (select_single cl (detail_query sl)) of
        Found p \<Rightarrow> DetailPost p
      | NoRows \<Rightarrow> DetailMessage (js ''Blog post not found'')
      | OtherFailure \<Rightarrow> DetailMessage (js ''Error loading blog post'')
      | NoData \<Rightarrow> DetailMessage (js ''Blog post not found''))"
    using ne1 ne2
    by (simp add: detail_fetchPost_def detail_render_def outcome_of_def detail_initial_def
        split: reply.split option.split)
  have q: "requests_of (snd (detail_fetchPost cl sl detail_initial)) = [Select (detail_query sl)]"
    by (simp add: detail_fetchPost_def split: reply.split option.split)
  have f: "q_eq (detail_query sl) = [(js ''slug'', sl), (js ''status'', js ''published'')] \<and>
   q_single (detail_query sl)"
    by (simp add: detail_query_def)
  from r ne q f show ?thesis by simp
qed

section \<open>Edit view: every failed fetch is \<open>Post not found\<close>\<close>

text \<open>
  C10. Whatever the state before, when the fetch of the edit view does not get a row
  without an error (an error of any code, a rejected promise, no row at all), the view
  shows the one message \<open>Post not found\<close>.
\<close>

theorem edit_fetch_failure_not_found:
  assumes "\<not> is_found (select_single cl (edit_query pid))"
  shows "edit_render (fst (edit_fetchPost cl pid s)) = EditMessage (js ''Post not found'')"
proof -
  have ne: "js ''Post not found'' \<noteq> []" by (simp add: js_def)
  from assms ne show ?thesis
    by (auto simp: edit_fetchPost_def edit_render_def is_found_def
        split: reply.splits option.splits)
qed

theorem edit_fetch_failure_not_found_witness:
  "\<not> is_found (select_single
        (scripted_client [] (Reply None (Some sample_failure)) Rejected Rejected Rejected)
        (edit_query (js ''7''))) \<and>
   edit_render (fst (edit_fetchPost
        (scripted_client [] (Reply None (Some sample_failure)) Rejected Rejected Rejected)
        (js ''7'') (sample_edit_state None [] [] None))) =
     EditMessage (js ''Post not found'')"
proof -
  let ?cl = "scripted_client [] (Reply None (Some sample_failure)) Rejected Rejected Rejected"
  have h: "\<not> is_found (select_single ?cl (edit_query (js ''7'')))"
    by (simp add: scripted_client_def is_found_def)
  from edit_fetch_failure_not_found[OF h] h show ?thesis by simp
qed

section \<open>Create view: validation and the failed upload\<close>

lemma requests_of_append: "requests_of (xs @ ys) = requests_of xs @ requests_of ys"
  by (induction xs rule: requests_of.induct) simp_all

lemmas scenario_defs =
  scripted_client_def sample_file_def sample_runtime_def sample_failure_def with_image_def
  sample_add_state_def sample_edit_state_def sample_post_def blank_def js_trim_def
  is_whitespace_def js_def generated_name_def last_segment_def images_bucket_def
  posts_table_def upload_failed_def client_ok_def client_upload_fails_def
  sample_old_post_def

text \<open>
  C7. When the title or the content of the create form is empty or holds only
  whitespace, the submit handler issues no request at all (no insert, no upload) and
  leaves the state as it was; it only alerts.
\<close>

theorem add_blank_submission:
  assumes "blank (add_title s) \<or> blank (add_content s)"
  shows "fst (add_handleSubmit cl rt s) = s \<and>
         requests_of (snd (add_handleSubmit cl rt s)) = [] \<and>
         alerts_of (snd (add_handleSubmit cl rt s)) = [js ''Title and content are required!'']"
  using assms by (simp add: add_handleSubmit_def)

theorem add_blank_submission_witness:
  "(blank (add_title (sample_add_state ''Hello'' ''   '' (Some sample_file))) \<or>
    blank (add_content (sample_add_state ''Hello'' ''   '' (Some sample_file)))) \<and>
   fst (add_handleSubmit
          (scripted_client [] Rejected (Reply (Some []) None) (Reply (Some ()) None) Rejected)
          sample_runtime (sample_add_state ''Hello'' ''   '' (Some sample_file))) =
     sample_add_state ''Hello'' ''   '' (Some sample_file) \<and>
   requests_of (snd (add_handleSubmit
          (scripted_client [] Rejected (Reply (Some []) None) (Reply (Some ()) None) Rejected)
          sample_runtime (sample_add_state ''Hello'' ''   '' (Some sample_file)))) = []"
proof -
  have h: "blank (add_title (sample_add_state ''Hello'' ''   '' (Some sample_file))) \<or>
    blank (add_content (sample_add_state ''Hello'' ''   '' (Some sample_file)))"
    by (simp add: sample_add_state_def blank_def js_trim_def is_whitespace_def js_def)
  from add_blank_submission[OF h] h show ?thesis by simp
qed

lemma add_uploadImage_failed:
  assumes "upload_failed (storage_upload cl images_bucket (generated_name rt f) f)"
  shows "add_uploadImage cl rt f =
     (None, [Issued (Upload images_bucket (generated_name rt f) f),
             ConsoleError (js ''Error uploading image:''),
             Alert (js ''Error uploading image!'')])"
  using assms
  by (auto simp: add_uploadImage_def upload_failed_def Let_def split: reply.splits option.splits)

text \<open>
  C5. In the create flow, when a file is selected and its upload fails (the answer
  carries an error, or the promise is rejected), no insert request is issued; when the
  form passes validation, so that the upload is tried at all, the upload is the only
  request and the user gets the alert \<open>Error uploading image!\<close>.
\<close>

theorem add_upload_failure_skips_insert:
  assumes "add_selectedFile s = Some f"
    and "upload_failed (storage_upload cl images_bucket (generated_name rt f) f)"
  shows "\<not> list_ex is_insert (requests_of (snd (add_handleSubmit cl rt s))) \<and>
         (\<not> blank (add_title s) \<and> \<not> blank (add_content s) \<longrightarrow>
            requests_of (snd (add_handleSubmit cl rt s)) =
              [Upload images_bucket (generated_name rt f) f] \<and>
            alerts_of (snd (add_handleSubmit cl rt s)) = [js ''Error uploading image!''])"
  using assms(1)
  by (simp add: add_handleSubmit_def add_uploadImage_failed[OF assms(2)] truthy_def)

theorem add_upload_failure_skips_insert_witness:
  "add_selectedFile (sample_add_state ''Hello'' ''Body'' (Some sample_file)) = Some sample_file \<and>
   upload_failed (storage_upload
      (scripted_client [] Rejected Rejected (Reply None (Some sample_failure)) Rejected)
      images_bucket (generated_name sample_runtime sample_file) sample_file) \<and>
   \<not> blank (add_title (sample_add_state ''Hello'' ''Body'' (Some sample_file))) \<and>
   \<not> blank (add_content (sample_add_state ''Hello'' ''Body'' (Some sample_file))) \<and>
   \<not> list_ex is_insert (requests_of (snd (add_handleSubmit
      (scripted_client [] Rejected Rejected (Reply None (Some sample_failure)) Rejected)
      sample_runtime (sample_add_state ''Hello'' ''Body'' (Some sample_file))))) \<and>
   requests_of (snd (add_handleSubmit
      (scripted_client [] Rejected Rejected (Reply None (Some sample_failure)) Rejected)
      sample_runtime (sample_add_state ''Hello'' ''Body'' (Some sample_file)))) =
     [Upload images_bucket (js ''1700-k3x9.png'') sample_file] \<and>
   alerts_of (snd (add_handleSubmit
      (scripted_client [] Rejected Rejected (Reply None (Some sample_failure)) Rejected)
      sample_runtime (sample_add_state ''Hello'' ''Body'' (Some sample_file)))) =
     [js ''Error uploading image!'']"
proof -
  let ?cl = "scripted_client [] Rejected Rejected (Reply None (Some sample_failure)) Rejected"
  let ?s = "sample_add_state ''Hello'' ''Body'' (Some sample_file)"
  have h1: "add_selectedFile ?s = Some sample_file"
    by (simp add: sample_add_state_def)
  have h2: "upload_failed (storage_upload ?cl images_bucket
      (generated_name sample_runtime sample_file) sample_file)"
    by (simp add: scripted_client_def upload_failed_def)
  have h3: "\<not> blank (add_title ?s)" and h4: "\<not> blank (add_content ?s)"
    by (simp_all add: scenario_defs)
  have n: "generated_name sample_runtime sample_file = js ''1700-k3x9.png''"
    by (simp add: scenario_defs)
  from add_upload_failure_skips_insert[OF h1 h2] h1 h2 h3 h4 n
  show ?thesis by simp
qed

section \<open>Edit view: replacing the image\<close>

lemma requests_deleteOldImage:
  "requests_of (deleteOldImage cl u) =
     (if last_segment 0x2F u \<noteq> [] then [Remove images_bucket [last_segment 0x2F u]] else [])"
  by (simp add: deleteOldImage_def Let_def split: reply.split)

lemma requests_edit_uploadImage:
  "requests_of (snd (edit_uploadImage cl rt f)) = [Upload images_bucket (generated_name rt f) f]"
  by (simp add: edit_uploadImage_def Let_def split: reply.split option.split)

lemma result_edit_uploadImage:
  "fst (edit_uploadImage cl rt f) =
     (if upload_failed (storage_upload cl images_bucket (generated_name rt f) f) then None
      else Some (public_url cl images_bucket (generated_name rt f)))"
  by (simp add: edit_uploadImage_def upload_failed_def Let_def split: reply.split option.split)

lemma requests_edit_update:
  "requests_of (snd (edit_update cl rt pid s iu inm before)) =
     requests_of before @ [Update posts_table (edit_row rt s iu inm) [(js ''id'', pid)]]"
  by (simp add: edit_update_def Let_def requests_of_append split: reply.split option.split)

lemma last_segment_Nil: "last_segment c [] = []"
  by (simp add: last_segment_def)

text \<open>
  C4, in the form the code satisfies. In the edit flow, when title and content are not
  blank, the post has an \<open>image_url\<close> whose part after the last slash is not empty, and
  a new file is selected, the submit handler issues exactly one delete (of that last
  part, the old object's name), then exactly one upload (under the generated name), and
  then, if the upload succeeded and gave a non-empty URL, the row update; nothing else.
\<close>

theorem edit_replace_image_requests:
  assumes "\<not> blank (edit_title s)" and "\<not> blank (edit_content s)"
    and "edit_post s = Some p" and "image_url p = Some u"
    and "last_segment 0x2F u \<noteq> []"
    and "edit_selectedFile s = Some f"
  shows "requests_of (snd (edit_handleSubmit cl rt pid s)) =
     [Remove images_bucket [last_segment 0x2F u],
      Upload images_bucket (generated_name rt f) f] @
     (if upload_failed (storage_upload cl images_bucket (generated_name rt f) f) \<or>
         public_url cl images_bucket (generated_name rt f) = []
      then []
      else [Update posts_table
              (edit_row rt s (Some (public_url cl images_bucket (generated_name rt f)))
                 (Some (file_name f)))
              [(js ''id'', pid)]])"
proof -
  from assms(5) have u: "u \<noteq> []" by (auto simp: last_segment_Nil)
  obtain iu up where e: "edit_uploadImage cl rt f = (iu, up)" by (cases "edit_uploadImage cl rt f")
  from e requests_edit_uploadImage[of cl rt f]
  have up: "requests_of up = [Upload images_bucket (generated_name rt f) f]" by simp
  from e result_edit_uploadImage[of cl rt f]
  have iu: "iu = (if upload_failed (storage_upload cl images_bucket (generated_name rt f) f) then None
      else Some (public_url cl images_bucket (generated_name rt f)))" by simp
  show ?thesis
    using assms u up
    by (simp add: edit_handleSubmit_def post_image_url_def e iu truthy_def Let_def
        requests_of_append requests_deleteOldImage requests_edit_update)
qed

theorem edit_replace_image_requests_witness:
  "\<not> blank (edit_title (sample_edit_state (Some sample_old_post) ''Hello'' ''Body'' (Some sample_file))) \<and>
   \<not> blank (edit_content (sample_edit_state (Some sample_old_post) ''Hello'' ''Body'' (Some sample_file))) \<and>
   edit_post (sample_edit_state (Some sample_old_post) ''Hello'' ''Body'' (Some sample_file)) =
     Some sample_old_post \<and>
   image_url sample_old_post = Some (js ''https://cdn.example/blog-images/old.png'') \<and>
   last_segment 0x2F (js ''https://cdn.example/blog-images/old.png'') = js ''old.png'' \<and>
   js ''old.png'' \<noteq> [] \<and>
   edit_selectedFile (sample_edit_state (Some sample_old_post) ''Hello'' ''Body'' (Some sample_file)) =
     Some sample_file \<and>
   requests_of (snd (edit_handleSubmit client_ok sample_runtime (js ''7'')
      (sample_edit_state (Some sample_old_post) ''Hello'' ''Body'' (Some sample_file)))) =
     [Remove images_bucket [js ''old.png''],
      Upload images_bucket (js ''1700-k3x9.png'') sample_file,
      Update posts_table
        (edit_row sample_runtime
           (sample_edit_state (Some sample_old_post) ''Hello'' ''Body'' (Some sample_file))
           (Some (js ''https://cdn.example/blog-images/1700-k3x9.png''))
           (Some (js ''new.png'')))
        [(js ''id'', js ''7'')]]"
proof -
  let ?s = "sample_edit_state (Some sample_old_post) ''Hello'' ''Body'' (Some sample_file)"
  let ?u = "js ''https://cdn.example/blog-images/old.png''"
  have h1: "\<not> blank (edit_title ?s)" and h2: "\<not> blank (edit_content ?s)"
    by (simp_all add: scenario_defs)
  have h3: "edit_post ?s = Some sample_old_post"
    by (simp add: sample_edit_state_def)
  have h4: "image_url sample_old_post = Some ?u"
    by (simp add: sample_old_post_def with_image_def)
  have seg: "last_segment 0x2F ?u = js ''old.png''"
    by (simp add: last_segment_def js_def)
  have ne: "js ''old.png'' \<noteq> []"
    by (simp add: js_def)
  from seg ne have h5: "last_segment 0x2F ?u \<noteq> []" by simp
  have h6: "edit_selectedFile ?s = Some sample_file"
    by (simp add: sample_edit_state_def)
  have n: "generated_name sample_runtime sample_file = js ''1700-k3x9.png''"
    by (simp add: scenario_defs)
  have ok: "\<not> upload_failed (storage_upload client_ok images_bucket (js ''1700-k3x9.png'') sample_file)"
    by (simp add: client_ok_def scripted_client_def upload_failed_def)
  have url: "public_url client_ok images_bucket (js ''1700-k3x9.png'') =
      js ''https://cdn.example/blog-images/1700-k3x9.png''"
    by (simp add: client_ok_def scripted_client_def images_bucket_def js_def)
  have une: "js ''https://cdn.example/blog-images/1700-k3x9.png'' \<noteq> []"
    by (simp add: js_def)
  have fn: "file_name sample_file = js ''new.png''"
    by (simp add: sample_file_def)
  from edit_replace_image_requests[OF h1 h2 h3 h4 h5 h6, of client_ok sample_runtime "js ''7''"]
  have "requests_of (snd (edit_handleSubmit client_ok sample_runtime (js ''7'') ?s)) =
     [Remove images_bucket [js ''old.png''],
      Upload images_bucket (js ''1700-k3x9.png'') sample_file,
      Update posts_table
        (edit_row sample_runtime ?s
           (Some (js ''https://cdn.example/blog-images/1700-k3x9.png''))
           (Some (js ''new.png'')))
        [(js ''id'', js ''7'')]]"
    unfolding n seg fn using ok url une by simp
  with h1 h2 h3 h4 seg ne h6 show ?thesis by simp
qed

text \<open>
  C4 as stated fails in three ways, each behind a guard of the handler: when the upload
  fails there is no update; with a blank title there is no request at all; with an
  \<open>image_url\<close> that ends in a slash there is no delete.
\<close>

theorem edit_replace_image_counterexample:
  "requests_of (snd (edit_handleSubmit client_upload_fails sample_runtime (js ''7'')
      (sample_edit_state (Some sample_old_post) ''Hello'' ''Body'' (Some sample_file)))) =
     [Remove images_bucket [js ''old.png''],
      Upload images_bucket (js ''1700-k3x9.png'') sample_file] \<and>
   requests_of (snd (edit_handleSubmit client_ok sample_runtime (js ''7'')
      (sample_edit_state (Some sample_old_post) ''   '' ''Body'' (Some sample_file)))) = [] \<and>
   requests_of (snd (edit_handleSubmit client_ok sample_runtime (js ''7'')
      (sample_edit_state
         (Some (with_image (sample_post ''seven'' Published 10) ''https://cdn.example/blog-images/''))
         ''Hello'' ''Body'' (Some sample_file)))) =
     [Upload images_bucket (js ''1700-k3x9.png'') sample_file,
      Update posts_table
        (edit_row sample_runtime
           (sample_edit_state
              (Some (with_image (sample_post ''seven'' Published 10) ''https://cdn.example/blog-images/''))
              ''Hello'' ''Body'' (Some sample_file))
           (Some (js ''https://cdn.example/blog-images/1700-k3x9.png''))
           (Some (js ''new.png'')))
        [(js ''id'', js ''7'')]]"
proof -
  let ?s = "sample_edit_state (Some sample_old_post) ''Hello'' ''Body'' (Some sample_file)"
  let ?p3 = "with_image (sample_post ''seven'' Published 10) ''https://cdn.example/blog-images/''"
  let ?s3 = "sample_edit_state (Some ?p3) ''Hello'' ''Body'' (Some sample_file)"
  have nb: "\<not> blank (js ''Hello'')" "\<not> blank (js ''Body'')" "blank (js ''   '')"
    by (simp_all add: blank_def js_trim_def is_whitespace_def js_def)
  have n: "generated_name sample_runtime sample_file = js ''1700-k3x9.png''"
    by (simp add: scenario_defs)
  have seg: "last_segment 0x2F (js ''https://cdn.example/blog-images/old.png'') = js ''old.png''"
    "last_segment 0x2F (js ''https://cdn.example/blog-images/'') = []"
    by (simp_all add: last_segment_def js_def)
  have lit: "js ''old.png'' \<noteq> []" "js ''https://cdn.example/blog-images/old.png'' \<noteq> []"
    "js ''https://cdn.example/blog-images/'' \<noteq> []"
    "js ''https://cdn.example/blog-images/1700-k3x9.png'' \<noteq> []"
    by (simp_all add: js_def)
  have url: "public_url client_ok images_bucket (js ''1700-k3x9.png'') =
      js ''https://cdn.example/blog-images/1700-k3x9.png''"
    by (simp add: client_ok_def scripted_client_def images_bucket_def js_def)
  have 1: "requests_of (snd (edit_handleSubmit client_upload_fails sample_runtime (js ''7'') ?s)) =
     [Remove images_bucket [js ''old.png''],
      Upload images_bucket (js ''1700-k3x9.png'') sample_file]"
    using nb lit
    by (simp add: edit_handleSubmit_def sample_edit_state_def sample_old_post_def with_image_def
        post_image_url_def requests_deleteOldImage seg edit_uploadImage_def n Let_def
        client_upload_fails_def scripted_client_def truthy_def requests_of_append)
  have 2: "requests_of (snd (edit_handleSubmit client_ok sample_runtime (js ''7'')
      (sample_edit_state (Some sample_old_post) ''   '' ''Body'' (Some sample_file)))) = []"
    using nb by (simp add: edit_handleSubmit_def sample_edit_state_def)
  have 3: "requests_of (snd (edit_handleSubmit client_ok sample_runtime (js ''7'') ?s3)) =
     [Upload images_bucket (js ''1700-k3x9.png'') sample_file,
      Update posts_table
        (edit_row sample_runtime ?s3
           (Some (js ''https://cdn.example/blog-images/1700-k3x9.png''))
           (Some (js ''new.png'')))
        [(js ''id'', js ''7'')]]"
  proof -
    have e: "edit_uploadImage client_ok sample_runtime sample_file =
        (Some (js ''https://cdn.example/blog-images/1700-k3x9.png''),
         [Issued (Upload images_bucket (js ''1700-k3x9.png'') sample_file)])"
      unfolding edit_uploadImage_def n Let_def url[symmetric]
      by (simp add: client_ok_def scripted_client_def)
    have st: "edit_title ?s3 = js ''Hello''" "edit_content ?s3 = js ''Body''"
      "edit_selectedFile ?s3 = Some sample_file"
      "post_image_url (edit_post ?s3) = Some (js ''https://cdn.example/blog-images/'')"
      by (simp_all add: sample_edit_state_def with_image_def post_image_url_def)
    have fn: "file_name sample_file = js ''new.png''" by (simp add: sample_file_def)
    show ?thesis
      using nb lit
      by (simp add: edit_handleSubmit_def st e Let_def requests_deleteOldImage seg truthy_def
          requests_edit_update fn requests_of_append)
  qed
  from 1 2 3 show ?thesis by simp
qed

section \<open>Edit view: keeping the image\<close>

text \<open>
  No view writes an empty \<open>image_url\<close>: the handlers read the old one with
  \<open>|| null\<close> and return before the write when the new one is empty. The
  \<open>image_name\<close> they write is the old one, read the same way, or the chosen file's name.
\<close>

lemma or_null_not_empty: "or_null v \<noteq> Some []"
  by (cases v) (simp_all add: or_null_def truthy_def)

lemma or_null_stored: "v \<noteq> Some [] \<Longrightarrow> or_null v = v"
  by (cases v) (simp_all add: or_null_def truthy_def)

lemma truthy_not_empty: "truthy v \<Longrightarrow> v \<noteq> Some []"
  by (cases v) (simp_all add: truthy_def)

lemma requests_add_uploadImage:
  "requests_of (snd (add_uploadImage cl rt f)) = [Upload images_bucket (generated_name rt f) f]"
  by (simp add: add_uploadImage_def Let_def split: reply.split option.split)

lemma requests_add_insert:
  "requests_of (snd (add_insert cl rt s iu inm before)) =
     requests_of before @ [Insert posts_table (add_row rt s iu inm)]"
  by (simp add: add_insert_def Let_def requests_of_append
      split: reply.split option.split list.split)

lemma add_never_writes_empty_image:
  assumes "Insert t row \<in> set (requests_of (snd (add_handleSubmit cl rt s)))"
  shows "ins_image_url row \<noteq> Some [] \<and>
         (case add_selectedFile s of
            None \<Rightarrow> ins_image_name row = None
          | Some f \<Rightarrow> ins_image_name row = Some (file_name f))"
proof (cases "add_selectedFile s")
  case None
  with assms show ?thesis
    by (auto simp: add_handleSubmit_def requests_add_insert add_row_def split: if_splits)
next
  case (Some f)
  obtain iu up where e: "add_uploadImage cl rt f = (iu, up)"
    by (cases "add_uploadImage cl rt f")
  from e requests_add_uploadImage[of cl rt f]
  have up: "requests_of up = [Upload images_bucket (generated_name rt f) f]" by simp
  from assms Some e up show ?thesis
    by (auto simp: add_handleSubmit_def requests_add_insert add_row_def
        dest: truthy_not_empty split: if_splits)
qed

lemma edit_never_writes_empty_image:
  assumes "Update t row flt \<in> set (requests_of (snd (edit_handleSubmit cl rt pid s)))"
  shows "upd_image_url row \<noteq> Some [] \<and>
         (case edit_selectedFile s of
            None \<Rightarrow> upd_image_name row \<noteq> Some []
          | Some f \<Rightarrow> upd_image_name row = Some (file_name f))"
proof (cases "edit_selectedFile s")
  case None
  with assms show ?thesis
    by (auto simp: edit_handleSubmit_def requests_edit_update edit_row_def or_null_not_empty
        split: if_splits)
next
  case (Some f)
  obtain iu up where e: "edit_uploadImage cl rt f = (iu, up)"
    by (cases "edit_uploadImage cl rt f")
  from e requests_edit_uploadImage[of cl rt f]
  have up: "requests_of up = [Upload images_bucket (generated_name rt f) f]" by simp
  from assms Some e up show ?thesis
    by (auto simp: edit_handleSubmit_def requests_edit_update edit_row_def Let_def
        requests_of_append requests_deleteOldImage
        dest: truthy_not_empty split: if_splits option.splits)
qed

text \<open>
  C6. In the edit flow, when no new file is selected, the only request is the update
  (none with a blank title or content), and it carries the \<open>image_url\<close> and the
  \<open>image_name\<close> of the post, stored as the views store them, unchanged.
\<close>

theorem edit_keep_image_fields:
  assumes "edit_post s = Some p" and "edit_selectedFile s = None"
    and "image_fields_stored p"
  shows "requests_of (snd (edit_handleSubmit cl rt pid s)) =
     (if blank (edit_title s) \<or> blank (edit_content s) then []
      else [Update posts_table (edit_row rt s (image_url p) (image_name p))
              [(js ''id'', pid)]]) \<and>
     upd_image_url (edit_row rt s (image_url p) (image_name p)) = image_url p \<and>
     upd_image_name (edit_row rt s (image_url p) (image_name p)) = image_name p"
proof -
  from assms(3) have o: "or_null (image_url p) = image_url p"
    "or_null (image_name p) = image_name p"
    by (simp_all add: image_fields_stored_def or_null_stored)
  show ?thesis
    using assms(1,2)
    by (simp add: edit_handleSubmit_def post_image_url_def post_image_name_def
        requests_edit_update edit_row_def o)
qed

theorem edit_keep_image_fields_witness:
  "edit_post (sample_edit_state (Some sample_old_post) ''Hello'' ''Body'' None) =
     Some sample_old_post \<and>
   edit_selectedFile (sample_edit_state (Some sample_old_post) ''Hello'' ''Body'' None) = None \<and>
   image_fields_stored sample_old_post \<and>
   requests_of (snd (edit_handleSubmit client_ok sample_runtime (js ''7'')
      (sample_edit_state (Some sample_old_post) ''Hello'' ''Body'' None))) =
     [Update posts_table
        (edit_row sample_runtime
           (sample_edit_state (Some sample_old_post) ''Hello'' ''Body'' None)
           (image_url sample_old_post) (image_name sample_old_post))
        [(js ''id'', js ''7'')]] \<and>
   image_url sample_old_post = Some (js ''https://cdn.example/blog-images/old.png'') \<and>
   image_name sample_old_post = Some (js ''old.png'')"
proof -
  let ?s = "sample_edit_state (Some sample_old_post) ''Hello'' ''Body'' None"
  have h1: "edit_post ?s = Some sample_old_post" and h2: "edit_selectedFile ?s = None"
    by (simp_all add: sample_edit_state_def)
  have nb: "\<not> blank (edit_title ?s)" "\<not> blank (edit_content ?s)"
    by (simp_all add: sample_edit_state_def blank_def js_trim_def is_whitespace_def js_def)
  have iu: "image_url sample_old_post = Some (js ''https://cdn.example/blog-images/old.png'')"
    and inm: "image_name sample_old_post = Some (js ''old.png'')"
    by (simp_all add: sample_old_post_def with_image_def)
  have h3: "image_fields_stored sample_old_post"
    by (simp add: image_fields_stored_def iu inm js_def)
  from edit_keep_image_fields[OF h1 h2 h3, of client_ok sample_runtime "js ''7''"] nb
  have "requests_of (snd (edit_handleSubmit client_ok sample_runtime (js ''7'') ?s)) =
     [Update posts_table
        (edit_row sample_runtime ?s (image_url sample_old_post) (image_name sample_old_post))
        [(js ''id'', js ''7'')]]"
    by simp
  with h1 h2 h3 iu inm show ?thesis by simp
qed

end
